theory Spec2Isabelle
  imports Complex_Main "HOL-Library.List_Lexorder" "HOL-Library.Char_ord"
    "HOL-Library.Monad_Syntax"
begin

section \<open>Numbers (IEEE 754 binary64)\<close>

text \<open>
  A JavaScript number is a binary64 value: a finite number, one of the two infinities or
  \<^verbatim>\<open>NaN\<close>. \<open>Finite x\<close> stands for the binary64 number of value \<open>x\<close>; the two zeros
  are one value, as they are for \<^verbatim>\<open>===\<close>. Every arithmetic operation rounds the exact
  result to the nearest binary64 number, ties to even (\<open>round64\<close>): 53 bits of
  precision, the least exponent of a unit in the last place is -1074, and a result of
  magnitude \<open>2 ^ 1024\<close> or more is an infinity. The type also has the values
  \<open>Finite x\<close> for an \<open>x\<close> that is not a binary64 number; the program never holds one,
  and what is proved of every value holds of the numbers of the program.
\<close>

datatype number = Finite rat | PosInfinity | NegInfinity | NaN

definition pow2 :: "int \<Rightarrow> rat" where
  "pow2 e = (if 0 \<le> e then 2 ^ nat e else 1 / 2 ^ nat (- e))"

fun bitLength :: "nat \<Rightarrow> nat" where
  "bitLength n = (if n = 0 then 0 else Suc (bitLength (n div 2)))"

declare bitLength.simps [simp del]

text \<open>The integer \<open>e\<close> with \<open>2 ^ e \<le> a < 2 ^ (e + 1)\<close>, for a positive \<open>a\<close>.\<close>

definition floorLog2 :: "rat \<Rightarrow> int" where
  "floorLog2 a =
     (if 1 \<le> a then int (bitLength (nat \<lfloor>a\<rfloor>)) - 1
      else - int (bitLength (nat (\<lceil>1 / a\<rceil> - 1))))"

definition roundHalfEven :: "rat \<Rightarrow> int" where
  "roundHalfEven r =
     (let f = \<lfloor>r\<rfloor>; d = r - of_int f
      in if d < 1 / 2 then f else if 1 / 2 < d then f + 1 else if even f then f else f + 1)"

definition round64 :: "rat \<Rightarrow> number" where
  "round64 x =
     (if x = 0 then Finite 0
      else
        (let a = \<bar>x\<bar>;
             q = max (floorLog2 a - 52) (- 1074);
             m = roundHalfEven (a / pow2 q)
         in if 971 < q \<or> (q = 971 \<and> 9007199254740992 \<le> m)
            then (if 0 < x then PosInfinity else NegInfinity)
            else Finite (if 0 < x then of_int m * pow2 q else - (of_int m * pow2 q))))"

text \<open>
  The operators \<^verbatim>\<open>+\<close>, unary and binary \<^verbatim>\<open>-\<close>, \<^verbatim>\<open><=\<close> and \<^verbatim>\<open><\<close>, and the literal 0.
  The addition is not associative, so the type is given the operators only and none of
  the algebraic classes. A comparison with \<^verbatim>\<open>NaN\<close> is false.
\<close>

instantiation number :: "{zero, plus, uminus, minus, ord}"
begin

definition zero_number :: number where
  "zero_number = Finite 0"

fun plus_number :: "number \<Rightarrow> number \<Rightarrow> number" where
  "plus_number NaN b = NaN"
| "plus_number a NaN = NaN"
| "plus_number PosInfinity NegInfinity = NaN"
| "plus_number NegInfinity PosInfinity = NaN"
| "plus_number PosInfinity b = PosInfinity"
| "plus_number a PosInfinity = PosInfinity"
| "plus_number NegInfinity b = NegInfinity"
| "plus_number a NegInfinity = NegInfinity"
| "plus_number (Finite x) (Finite y) = round64 (x + y)"

fun uminus_number :: "number \<Rightarrow> number" where
  "uminus_number (Finite x) = Finite (- x)"
| "uminus_number PosInfinity = NegInfinity"
| "uminus_number NegInfinity = PosInfinity"
| "uminus_number NaN = NaN"

definition minus_number :: "number \<Rightarrow> number \<Rightarrow> number" where
  "minus_number a b = a + (- b)"

fun less_eq_number :: "number \<Rightarrow> number \<Rightarrow> bool" where
  "less_eq_number NaN b = False"
| "less_eq_number a NaN = False"
| "less_eq_number NegInfinity b = True"
| "less_eq_number a PosInfinity = True"
| "less_eq_number PosInfinity b = False"
| "less_eq_number a NegInfinity = False"
| "less_eq_number (Finite x) (Finite y) = (x \<le> y)"

fun less_number :: "number \<Rightarrow> number \<Rightarrow> bool" where
  "less_number NaN b = False"
| "less_number a NaN = False"
| "less_number PosInfinity b = False"
| "less_number a NegInfinity = False"
| "less_number NegInfinity b = True"
| "less_number a PosInfinity = True"
| "less_number (Finite x) (Finite y) = (x < y)"

instance ..

end

text \<open>\<^verbatim>\<open>isFinite\<close>: neither \<^verbatim>\<open>NaN\<close> nor an infinity.\<close>

definition isFinite :: "number \<Rightarrow> bool" where
  "isFinite n = (case n of Finite x \<Rightarrow> True | _ \<Rightarrow> False)"

text \<open>
  The text of a number input is empty or the notation of a number; it is modelled by
  the number it denotes, \<open>None\<close> when it is empty. \<^verbatim>\<open>parseFloat\<close> of the empty text is
  \<^verbatim>\<open>NaN\<close>.
\<close>

definition parseFloat :: "number option \<Rightarrow> number" where
  "parseFloat v = (case v of None \<Rightarrow> NaN | Some x \<Rightarrow> x)"

section \<open>Data model (types.ts)\<close>

text \<open>
  The enum \<^verbatim>\<open>Category\<close> and the interface \<^verbatim>\<open>Transaction\<close>. The constructors are
  listed in the order of the enum declaration, which is the order of
  \<^verbatim>\<open>Object.values(Category)\<close>. Amounts and balances are the numbers of the section
  above. The fields \<^verbatim>\<open>id\<close> and \<^verbatim>\<open>type\<close> carry the suffix \<open>_tx\<close>.
  \<^verbatim>\<open>Omit<Transaction, 'id' | 'reimbursed'>\<close> is the parent record and
  \<^verbatim>\<open>Transaction\<close> extends it with the two omitted fields.
\<close>

datatype Category = MORNING_KINGDOM | STUDENT_PAYMENT | INVOICE_REIMBURSEMENT | OTHER_ADJUSTMENT

datatype tx_type = income | expense

record TransactionData =
  date :: string
  category :: Category
  description :: string
  amount :: number
  type_tx :: tx_type

record Transaction = TransactionData +
  id_tx :: string
  reimbursed :: bool

definition Category_values :: "Category list" where
  "Category_values = [MORNING_KINGDOM, STUDENT_PAYMENT, INVOICE_REIMBURSEMENT, OTHER_ADJUSTMENT]"

section \<open>Application state (App.tsx, function App)\<close>

datatype delete_kind = single | bulk

record delete_confirmation =
  dc_type :: delete_kind
  dc_id :: "string option"

text \<open>
  The state hooks of \<^verbatim>\<open>App\<close> that the handlers below read or write. The selection is
  a \<^verbatim>\<open>Set<string>\<close>; \<^verbatim>\<open>initialBalance\<close> is \<^verbatim>\<open>number | null\<close>. The theme, the
  notifications and the search toggle take no part in any handler modelled here.
\<close>

record app_state =
  transactions :: "Transaction list"
  initialBalance :: "number option"
  targetTotal :: number
  visibleCategories :: "Category list"
  selectedTransactionIds :: "string set"
  isFormOpen :: bool
  isSettingsOpen :: bool
  editingTransaction :: "Transaction option"
  deleteConfirmation :: "delete_confirmation option"
  searchQuery :: string

text \<open>The state of the first run: the default of every hook.\<close>

definition initial_state :: app_state where
  "initial_state =
     \<lparr>transactions = [], initialBalance = None, targetTotal = Finite 30000,
      visibleCategories = Category_values, selectedTransactionIds = {},
      isFormOpen = False, isSettingsOpen = False, editingTransaction = None,
      deleteConfirmation = None, searchQuery = []\<rparr>"

text \<open>The operator \<^verbatim>\<open>??\<close> on a nullable number.\<close>

definition nullish :: "number option \<Rightarrow> number \<Rightarrow> number" where
  "nullish v d = (case v of None \<Rightarrow> d | Some x \<Rightarrow> x)"

section \<open>Aggregation (App.tsx, calculations)\<close>

text \<open>
  Each figure is a \<^verbatim>\<open>reduce\<close> over \<^verbatim>\<open>transactions\<close>, that is a left fold. The
  reducers are written as the source has them: \<^verbatim>\<open>value\<close> is assigned and then
  overwritten with 0 for a reimbursed invoice expense. Every \<open>+\<close> and \<open>-\<close> is the
  rounding operation on numbers.
\<close>

definition visibleBalance_step :: "number \<Rightarrow> Transaction \<Rightarrow> number" where
  "visibleBalance_step acc t =
     (let value0 = (if type_tx t = income then amount t else - amount t);
          value1 = (if category t = INVOICE_REIMBURSEMENT \<and> type_tx t = expense \<and> reimbursed t
                    then 0 else value0)
      in acc + value1)"

definition visibleBalance :: "app_state \<Rightarrow> number" where
  "visibleBalance s = foldl visibleBalance_step (nullish (initialBalance s) 0) (transactions s)"

definition receivable_step :: "number \<Rightarrow> Transaction \<Rightarrow> number" where
  "receivable_step acc t =
     (if category t = MORNING_KINGDOM then acc + amount t
      else if category t = STUDENT_PAYMENT then acc - amount t
      else acc)"

definition receivable :: "app_state \<Rightarrow> number" where
  "receivable s = foldl receivable_step 0 (transactions s)"

definition invoiceOnlyBalance_step :: "number \<Rightarrow> Transaction \<Rightarrow> number" where
  "invoiceOnlyBalance_step acc t =
     (if category t = INVOICE_REIMBURSEMENT then
        (let value0 = (if type_tx t = income then amount t else - amount t);
             value1 = (if type_tx t = expense \<and> reimbursed t then 0 else value0)
         in acc + value1)
      else acc)"

definition invoiceOnlyBalance :: "app_state \<Rightarrow> number" where
  "invoiceOnlyBalance s =
     foldl invoiceOnlyBalance_step (nullish (initialBalance s) 0) (transactions s)"

definition unreimbursedTotal_step :: "number \<Rightarrow> Transaction \<Rightarrow> number" where
  "unreimbursedTotal_step acc t =
     (if category t = INVOICE_REIMBURSEMENT \<and> type_tx t = expense \<and> \<not> reimbursed t
      then acc + amount t else acc)"

definition unreimbursedTotal :: "app_state \<Rightarrow> number" where
  "unreimbursedTotal s = foldl unreimbursedTotal_step 0 (transactions s)"

definition verificationTotal :: "app_state \<Rightarrow> number" where
  "verificationTotal s = invoiceOnlyBalance s + unreimbursedTotal s"

text \<open>
  The contribution of one transaction to the balance as the specification words it:
  \<open>+amount\<close> for an income, \<open>-amount\<close> for an expense, and 0 for a reimbursed
  invoice-reimbursement expense.
\<close>

definition contribution :: "Transaction \<Rightarrow> number" where
  "contribution t =
     (if category t = INVOICE_REIMBURSEMENT \<and> type_tx t = expense \<and> reimbursed t then 0
      else if type_tx t = income then amount t
      else - amount t)"

text \<open>
  The balance as the specification words it: the initial balance plus the fold of the
  contributions, a sum of its own.
\<close>

definition spec_visibleBalance :: "app_state \<Rightarrow> number" where
  "spec_visibleBalance s =
     nullish (initialBalance s) 0
       + foldl (\<lambda>acc t. acc + contribution t) 0 (transactions s)"

text \<open>
  The two number inputs of the settings dialog: on blur, the state takes
  \<^verbatim>\<open>parseFloat\<close> of the text with no check.
\<close>

definition onBlurInitialBalance :: "number option \<Rightarrow> app_state \<Rightarrow> app_state" where
  "onBlurInitialBalance v s = s\<lparr>initialBalance := Some (parseFloat v)\<rparr>"

definition onBlurTargetTotal :: "number option \<Rightarrow> app_state \<Rightarrow> app_state" where
  "onBlurTargetTotal v s = s\<lparr>targetTotal := parseFloat v\<rparr>"

section \<open>Selection rules (App.tsx, canReimburse / canCancelReimbursement)\<close>

definition selected :: "app_state \<Rightarrow> Transaction list" where
  "selected s = filter (\<lambda>t. id_tx t \<in> selectedTransactionIds s) (transactions s)"

definition canReimburse :: "app_state \<Rightarrow> bool" where
  "canReimburse s =
     (if selectedTransactionIds s = {} then False
      else length (selected s) > 0 \<and>
           list_all (\<lambda>t. category t = INVOICE_REIMBURSEMENT \<and> \<not> reimbursed t) (selected s))"

definition canCancelReimbursement :: "app_state \<Rightarrow> bool" where
  "canCancelReimbursement s =
     (if selectedTransactionIds s = {} then False
      else length (selected s) > 0 \<and>
           list_all (\<lambda>t. category t = INVOICE_REIMBURSEMENT \<and> reimbursed t) (selected s))"

text \<open>
  The two rules as the specification words them: the selection is non-empty and every
  selected transaction is an invoice reimbursement with the given flag.
\<close>

definition spec_canReimburse :: "app_state \<Rightarrow> bool" where
  "spec_canReimburse s =
     (selectedTransactionIds s \<noteq> {} \<and>
      (\<forall>t \<in> set (transactions s). id_tx t \<in> selectedTransactionIds s \<longrightarrow>
         category t = INVOICE_REIMBURSEMENT \<and> \<not> reimbursed t))"

definition spec_canCancelReimbursement :: "app_state \<Rightarrow> bool" where
  "spec_canCancelReimbursement s =
     (selectedTransactionIds s \<noteq> {} \<and>
      (\<forall>t \<in> set (transactions s). id_tx t \<in> selectedTransactionIds s \<longrightarrow>
         category t = INVOICE_REIMBURSEMENT \<and> reimbursed t))"

definition handleToggleSelect :: "string \<Rightarrow> app_state \<Rightarrow> app_state" where
  "handleToggleSelect i s =
     (if i \<in> selectedTransactionIds s
      then s\<lparr>selectedTransactionIds := selectedTransactionIds s - {i}\<rparr>
      else s\<lparr>selectedTransactionIds := insert i (selectedTransactionIds s)\<rparr>)"

definition handleReimburse :: "bool \<Rightarrow> app_state \<Rightarrow> app_state" where
  "handleReimburse reimburse s =
     s\<lparr>transactions :=
          map (\<lambda>t. if id_tx t \<in> selectedTransactionIds s then t\<lparr>reimbursed := reimburse\<rparr> else t)
            (transactions s),
        selectedTransactionIds := {}\<rparr>"

section \<open>Sorting by date (Array.prototype.sort with localeCompare)\<close>

text \<open>
  \<^verbatim>\<open>x.localeCompare(y)\<close> is the collation of the locale. On two ISO dates
  \<^verbatim>\<open>YYYY-MM-DD\<close> (\<open>isoDate\<close>) every collation compares the digits from left to right,
  which is the comparison by character code below. The interface documents the date
  of a transaction as an ISO string, and the date input of the form produces one. On
  other strings the function below is still the comparison by character code, which a
  collation need not follow; the import, which receives arbitrary strings, gives no
  answer for them (\<open>sortImported\<close>).
\<close>

definition isDigit :: "char \<Rightarrow> bool" where
  "isDigit c = (c \<in> set ''0123456789'')"

fun isoDate :: "string \<Rightarrow> bool" where
  "isoDate [y1, y2, y3, y4, h1, m1, m2, h2, d1, d2] =
     (isDigit y1 \<and> isDigit y2 \<and> isDigit y3 \<and> isDigit y4 \<and> h1 = CHR ''-'' \<and>
      isDigit m1 \<and> isDigit m2 \<and> h2 = CHR ''-'' \<and> isDigit d1 \<and> isDigit d2)"
| "isoDate ds = False"

fun localeCompare :: "string \<Rightarrow> string \<Rightarrow> int" where
  "localeCompare [] [] = 0"
| "localeCompare [] (y # ys) = - 1"
| "localeCompare (x # xs) [] = 1"
| "localeCompare (x # xs) (y # ys) =
     (if (of_char x :: nat) < of_char y then - 1
      else if (of_char y :: nat) < of_char x then 1
      else localeCompare xs ys)"

text \<open>The comparator \<^verbatim>\<open>(a, b) => b.date.localeCompare(a.date)\<close>.\<close>

definition byDateDesc :: "Transaction \<Rightarrow> Transaction \<Rightarrow> int" where
  "byDateDesc a b = localeCompare (date b) (date a)"

text \<open>
  \<^verbatim>\<open>Array.prototype.sort\<close> is a stable sort: the model is the stable insertion sort,
  where an element is placed before the first element it does not have to follow.
\<close>

fun insert_array :: "('a \<Rightarrow> 'a \<Rightarrow> int) \<Rightarrow> 'a \<Rightarrow> 'a list \<Rightarrow> 'a list" where
  "insert_array cmp x [] = [x]"
| "insert_array cmp x (y # ys) =
     (if cmp x y \<le> 0 then x # y # ys else y # insert_array cmp x ys)"

fun sort_array :: "('a \<Rightarrow> 'a \<Rightarrow> int) \<Rightarrow> 'a list \<Rightarrow> 'a list" where
  "sort_array cmp [] = []"
| "sort_array cmp (x # xs) = insert_array cmp x (sort_array cmp xs)"

text \<open>Date descending, under the lexicographic order of the date strings.\<close>

definition date_descending :: "Transaction list \<Rightarrow> bool" where
  "date_descending ts = sorted_wrt (\<lambda>a b. date b \<le> date a) ts"

section \<open>Transaction repository (App.tsx, handlers)\<close>

text \<open>
  \<^verbatim>\<open>Date.now().toString()\<close>: the clock reading is an argument of the handler, and
  \<open>toString\<close> is its decimal notation.
\<close>

fun toString :: "nat \<Rightarrow> string" where
  "toString n =
     (if n < 10 then [char_of (48 + n)]
      else toString (n div 10) @ [char_of (48 + n mod 10)])"

declare toString.simps [simp del]

definition newTransaction :: "nat \<Rightarrow> TransactionData \<Rightarrow> Transaction" where
  "newTransaction now d =
     \<lparr>date = date d, category = category d, description = description d, amount = amount d,
      type_tx = type_tx d, id_tx = toString now, reimbursed = False\<rparr>"

definition handleAddTransaction :: "nat \<Rightarrow> TransactionData \<Rightarrow> app_state \<Rightarrow> app_state" where
  "handleAddTransaction now d s =
     s\<lparr>transactions := sort_array byDateDesc (transactions s @ [newTransaction now d])\<rparr>"

definition handleUpdateTransaction :: "Transaction \<Rightarrow> app_state \<Rightarrow> app_state" where
  "handleUpdateTransaction updatedTransaction s =
     s\<lparr>transactions :=
          sort_array byDateDesc
            (map (\<lambda>t. if id_tx t = id_tx updatedTransaction then updatedTransaction else t)
               (transactions s)),
        editingTransaction := None\<rparr>"

text \<open>
  The two places that open the delete confirmation: the bin of a row and the bin of the
  action bar.
\<close>

definition onDelete :: "Transaction \<Rightarrow> app_state \<Rightarrow> app_state" where
  "onDelete t s = s\<lparr>deleteConfirmation := Some \<lparr>dc_type = single, dc_id = Some (id_tx t)\<rparr>\<rparr>"

definition onBulkDelete :: "app_state \<Rightarrow> app_state" where
  "onBulkDelete s = s\<lparr>deleteConfirmation := Some \<lparr>dc_type = bulk, dc_id = None\<rparr>\<rparr>"

text \<open>An optional string is truthy when it is present and not empty.\<close>

definition truthy :: "string option \<Rightarrow> bool" where
  "truthy v = (case v of None \<Rightarrow> False | Some x \<Rightarrow> x \<noteq> [])"

definition handleDelete :: "app_state \<Rightarrow> app_state" where
  "handleDelete s =
     (case deleteConfirmation s of
        None \<Rightarrow> s
      | Some dc \<Rightarrow>
          (if dc_type dc = single \<and> truthy (dc_id dc) then
             s\<lparr>transactions := filter (\<lambda>t. Some (id_tx t) \<noteq> dc_id dc) (transactions s),
               deleteConfirmation := None\<rparr>
           else if dc_type dc = bulk then
             s\<lparr>transactions :=
                  filter (\<lambda>t. id_tx t \<notin> selectedTransactionIds s) (transactions s),
               selectedTransactionIds := {},
               deleteConfirmation := None\<rparr>
           else s\<lparr>deleteConfirmation := None\<rparr>))"

section \<open>Export and import (App.tsx, handleExportData / handleImportData)\<close>

text \<open>
  The values \<^verbatim>\<open>JSON.parse\<close> returns. A file is modelled by the value its text denotes:
  \<^verbatim>\<open>JSON.stringify\<close> followed by \<^verbatim>\<open>JSON.parse\<close> gives back such a value unchanged.
  A number of a parsed value is never \<^verbatim>\<open>NaN\<close>, and \<^verbatim>\<open>JSON.stringify\<close> writes
  \<^verbatim>\<open>NaN\<close> and the infinities as \<^verbatim>\<open>null\<close> (\<open>jsonNumber\<close>).
\<close>

datatype jsval =
    JNull
  | JBool bool
  | JNumber number
  | JString string
  | JArray "jsval list"
  | JObject "(string \<times> jsval) list"

text \<open>
  Property access \<^verbatim>\<open>v.k\<close> on a value other than \<^verbatim>\<open>null\<close>, for the keys the program
  reads; \<open>None\<close> is \<^verbatim>\<open>undefined\<close>.
\<close>

definition getProp :: "jsval \<Rightarrow> string \<Rightarrow> jsval option" where
  "getProp v k = (case v of JObject kvs \<Rightarrow> map_of kvs k | _ \<Rightarrow> None)"

definition typeofNumber :: "jsval option \<Rightarrow> bool" where
  "typeofNumber v = (case v of Some (JNumber x) \<Rightarrow> True | _ \<Rightarrow> False)"

definition isArray :: "jsval option \<Rightarrow> bool" where
  "isArray v = (case v of Some (JArray xs) \<Rightarrow> True | _ \<Rightarrow> False)"

definition numberOf :: "jsval option \<Rightarrow> number" where
  "numberOf v = (case v of Some (JNumber x) \<Rightarrow> x | _ \<Rightarrow> 0)"

definition elementsOf :: "jsval option \<Rightarrow> jsval list" where
  "elementsOf v = (case v of Some (JArray xs) \<Rightarrow> xs | _ \<Rightarrow> [])"

definition getString :: "jsval \<Rightarrow> string \<Rightarrow> string option" where
  "getString v k = (case getProp v k of Some (JString x) \<Rightarrow> Some x | _ \<Rightarrow> None)"

definition getNumber :: "jsval \<Rightarrow> string \<Rightarrow> number option" where
  "getNumber v k = (case getProp v k of Some (JNumber x) \<Rightarrow> Some x | _ \<Rightarrow> None)"

definition getBool :: "jsval \<Rightarrow> string \<Rightarrow> bool option" where
  "getBool v k = (case getProp v k of Some (JBool x) \<Rightarrow> Some x | _ \<Rightarrow> None)"

definition jsonNumber :: "number \<Rightarrow> jsval" where
  "jsonNumber n = (case n of Finite x \<Rightarrow> JNumber n | _ \<Rightarrow> JNull)"

text \<open>The string values of the enum and of the type field.\<close>

fun categoryString :: "Category \<Rightarrow> string" where
  "categoryString MORNING_KINGDOM = ''MORNING_KINGDOM''"
| "categoryString STUDENT_PAYMENT = ''STUDENT_PAYMENT''"
| "categoryString INVOICE_REIMBURSEMENT = ''INVOICE_REIMBURSEMENT''"
| "categoryString OTHER_ADJUSTMENT = ''OTHER_ADJUSTMENT''"

definition categoryOfString :: "string \<Rightarrow> Category option" where
  "categoryOfString x =
     (if x = ''MORNING_KINGDOM'' then Some MORNING_KINGDOM
      else if x = ''STUDENT_PAYMENT'' then Some STUDENT_PAYMENT
      else if x = ''INVOICE_REIMBURSEMENT'' then Some INVOICE_REIMBURSEMENT
      else if x = ''OTHER_ADJUSTMENT'' then Some OTHER_ADJUSTMENT
      else None)"

fun typeString :: "tx_type \<Rightarrow> string" where
  "typeString income = ''income''"
| "typeString expense = ''expense''"

definition typeOfString :: "string \<Rightarrow> tx_type option" where
  "typeOfString x =
     (if x = ''income'' then Some income else if x = ''expense'' then Some expense else None)"

text \<open>
  A transaction as a JSON object, with its properties in the order in which the handlers
  create them, and the reading of an object as a transaction: the object has the seven
  properties with the types of the interface.
\<close>

definition transactionToJson :: "Transaction \<Rightarrow> jsval" where
  "transactionToJson t =
     JObject [(''date'', JString (date t)),
              (''category'', JString (categoryString (category t))),
              (''description'', JString (description t)),
              (''amount'', jsonNumber (amount t)),
              (''type'', JString (typeString (type_tx t))),
              (''id'', JString (id_tx t)),
              (''reimbursed'', JBool (reimbursed t))]"

definition asTransaction :: "jsval \<Rightarrow> Transaction option" where
  "asTransaction v =
     do {
       d \<leftarrow> getString v ''date'';
       cs \<leftarrow> getString v ''category'';
       c \<leftarrow> categoryOfString cs;
       ds \<leftarrow> getString v ''description'';
       a \<leftarrow> getNumber v ''amount'';
       tys \<leftarrow> getString v ''type'';
       ty \<leftarrow> typeOfString tys;
       i \<leftarrow> getString v ''id'';
       r \<leftarrow> getBool v ''reimbursed'';
       Some \<lparr>date = d, category = c, description = ds, amount = a, type_tx = ty,
             id_tx = i, reimbursed = r\<rparr>
     }"

text \<open>
  The \<^verbatim>\<open>date\<close> of an array element as the comparator reads it: an element that is
  \<^verbatim>\<open>null\<close>, not an object, or an object whose \<^verbatim>\<open>date\<close> is not a string, has none.
\<close>

definition hasStringDate :: "jsval \<Rightarrow> bool" where
  "hasStringDate v = (getString v ''date'' \<noteq> None)"

definition hasIsoDate :: "jsval \<Rightarrow> bool" where
  "hasIsoDate v = (case getString v ''date'' of None \<Rightarrow> False | Some d \<Rightarrow> isoDate d)"

definition stringDate :: "jsval \<Rightarrow> string" where
  "stringDate v = (case getString v ''date'' of None \<Rightarrow> [] | Some d \<Rightarrow> d)"

text \<open>The comparator on array elements that have a string \<^verbatim>\<open>date\<close>.\<close>

definition rawByDateDesc :: "jsval \<Rightarrow> jsval \<Rightarrow> int" where
  "rawByDateDesc a b = localeCompare (stringDate b) (stringDate a)"

text \<open>\<^verbatim>\<open>dataToExport\<close>, the content of the exported file.\<close>

definition handleExportData :: "app_state \<Rightarrow> jsval" where
  "handleExportData s =
     JObject [(''initialBalance'',
                 (case initialBalance s of None \<Rightarrow> JNull | Some b \<Rightarrow> jsonNumber b)),
              (''targetTotal'', jsonNumber (targetTotal s)),
              (''transactions'', JArray (map transactionToJson (transactions s)))]"

text \<open>
  \<^verbatim>\<open>data.transactions.sort((a, b) => b.date.localeCompare(a.date))\<close> on the parsed
  array, whose elements nothing has checked.
  \<^item> An array of at most one element is left as it is: the comparator is not called.
  \<^item> When no element has a string \<^verbatim>\<open>date\<close>, every call of the comparator raises a
    \<^verbatim>\<open>TypeError\<close>, and a sort of two or more elements calls it.
  \<^item> When every element has an ISO date, no call raises and the array is sorted.
  \<^item> Otherwise the language leaves the result open: which pairs are compared is up to
    the engine, and the order of strings that are not ISO dates is up to the locale.

  The sorted array becomes the repository. When each of its elements is a transaction
  (an object with the seven properties of the interface) it is the list \<open>Sorted\<close>
  carries; when one is not, the repository holds values that the record type does not
  have, and \<open>SortedRaw\<close> carries them as they are.
\<close>

datatype sort_result =
    Sorted "Transaction list"
  | SortedRaw "jsval list"
  | TypeError
  | SortUnspecified

definition typedOrRaw :: "jsval list \<Rightarrow> sort_result" where
  "typedOrRaw vs =
     (if list_all (\<lambda>v. asTransaction v \<noteq> None) vs
      then Sorted (map (\<lambda>v. the (asTransaction v)) vs)
      else SortedRaw vs)"

definition sortImported :: "jsval list \<Rightarrow> sort_result" where
  "sortImported arr =
     (if length arr \<le> 1 then typedOrRaw arr
      else if \<not> list_ex hasStringDate arr then TypeError
      else if list_all hasIsoDate arr then typedOrRaw (sort_array rawByDateDesc arr)
      else SortUnspecified)"

text \<open>
  The result of an import, with the state it leaves: the alert of the \<^verbatim>\<open>catch\<close> block,
  a declined confirmation, the success notification with a repository of transactions,
  the success notification with a repository of the given raw values (the state
  carries the other fields), or no answer where the sort gives none.
\<close>

datatype import_result =
    ImportFailed app_state
  | Cancelled app_state
  | Imported app_state
  | ImportedRaw app_state "jsval list"
  | ImportUnspecified

text \<open>The test of the \<^verbatim>\<open>if\<close> in \<^verbatim>\<open>reader.onload\<close>.\<close>

definition formatOk :: "jsval \<Rightarrow> bool" where
  "formatOk data =
     (typeofNumber (getProp data ''initialBalance'') \<and>
      typeofNumber (getProp data ''targetTotal'') \<and>
      isArray (getProp data ''transactions''))"

text \<open>
  \<^verbatim>\<open>reader.onload\<close>. The first argument is the parsed file, \<open>None\<close> when the file is not
  readable as text or \<^verbatim>\<open>JSON.parse\<close> raises; the second is the answer to
  \<^verbatim>\<open>window.confirm\<close>. Reading a property of \<^verbatim>\<open>null\<close> raises, which the \<^verbatim>\<open>catch\<close>
  block reports like every other error. The two setters run before the sort, so an
  error raised by the comparator leaves their updates in place.
\<close>

definition handleImportData :: "jsval option \<Rightarrow> bool \<Rightarrow> app_state \<Rightarrow> import_result" where
  "handleImportData parsed confirm s =
     (case parsed of
        None \<Rightarrow> ImportFailed s
      | Some JNull \<Rightarrow> ImportFailed s
      | Some data \<Rightarrow>
          (if formatOk data then
             (if confirm then
                (let s1 = s\<lparr>initialBalance := Some (numberOf (getProp data ''initialBalance'')),
                             targetTotal := numberOf (getProp data ''targetTotal'')\<rparr>
                 in case sortImported (elementsOf (getProp data ''transactions'')) of
                      Sorted ts \<Rightarrow> Imported (s1\<lparr>transactions := ts, isSettingsOpen := False\<rparr>)
                    | SortedRaw vs \<Rightarrow> ImportedRaw (s1\<lparr>isSettingsOpen := False\<rparr>) vs
                    | TypeError \<Rightarrow> ImportFailed s1
                    | SortUnspecified \<Rightarrow> ImportUnspecified)
              else Cancelled s)
           else ImportFailed s))"

section \<open>Transaction form (App.tsx, TransactionForm)\<close>

text \<open>
  The state of the form. The amount field is a number input: its text is empty
  (\<open>None\<close>) or the notation of a number, which \<^verbatim>\<open>parseFloat\<close> reads back.
\<close>

record form_state =
  f_date :: string
  f_category :: Category
  f_description :: string
  f_amount :: "number option"
  f_type :: tx_type
  f_editing :: "Transaction option"

definition initial_form :: "string \<Rightarrow> Transaction option \<Rightarrow> form_state" where
  "initial_form today e =
     \<lparr>f_date = today, f_category = INVOICE_REIMBURSEMENT, f_description = [],
      f_amount = None, f_type = expense, f_editing = e\<rparr>"

text \<open>The effect that loads the transaction being edited.\<close>

definition editingEffect :: "form_state \<Rightarrow> form_state" where
  "editingEffect f =
     (case f_editing f of
        None \<Rightarrow> f
      | Some e \<Rightarrow>
          f\<lparr>f_date := date e, f_category := category e, f_description := description e,
            f_amount := Some (amount e), f_type := type_tx e\<rparr>)"

definition availableCategories :: "tx_type \<Rightarrow> Category list" where
  "availableCategories ty =
     (if ty = income then
        filter (\<lambda>c. c \<noteq> INVOICE_REIMBURSEMENT \<and> c \<noteq> MORNING_KINGDOM) Category_values
      else filter (\<lambda>c. c \<noteq> STUDENT_PAYMENT) Category_values)"

text \<open>
  The effect that resets a category that is not available to
  \<^verbatim>\<open>availableCategories[0] || Category.OTHER_ADJUSTMENT\<close>.
\<close>

definition categoryEffect :: "form_state \<Rightarrow> form_state" where
  "categoryEffect f =
     (if f_category f \<notin> set (availableCategories (f_type f)) then
        f\<lparr>f_category :=
            (case availableCategories (f_type f) of [] \<Rightarrow> OTHER_ADJUSTMENT | c # cs \<Rightarrow> c)\<rparr>
      else f)"

text \<open>
  The states of the form between two events, effects run: the form as mounted, and the
  changes of its five inputs. The category effect runs again when the type or the
  category changes. The category input is a \<^verbatim>\<open>select\<close> whose options are
  \<open>availableCategories\<close>, so it sets one of them.
\<close>

inductive form_reachable :: "form_state \<Rightarrow> bool" where
  mounted: "form_reachable (categoryEffect (editingEffect (initial_form today e)))"
| setDate: "form_reachable f \<Longrightarrow> form_reachable (f\<lparr>f_date := d\<rparr>)"
| setType: "form_reachable f \<Longrightarrow> form_reachable (categoryEffect (f\<lparr>f_type := ty\<rparr>))"
| setCategory:
    "form_reachable f \<Longrightarrow> c \<in> set (availableCategories (f_type f)) \<Longrightarrow>
     form_reachable (categoryEffect (f\<lparr>f_category := c\<rparr>))"
| setDescription: "form_reachable f \<Longrightarrow> form_reachable (f\<lparr>f_description := ds\<rparr>)"
| setAmount: "form_reachable f \<Longrightarrow> form_reachable (f\<lparr>f_amount := a\<rparr>)"

text \<open>
  \<^verbatim>\<open>handleSubmit\<close>: the alert, or the call of \<^verbatim>\<open>onUpdateTransaction\<close> or
  \<^verbatim>\<open>onAddTransaction\<close> with its argument.
\<close>

datatype submit_result = Rejected | Updated Transaction | Added TransactionData

definition handleSubmit :: "form_state \<Rightarrow> submit_result" where
  "handleSubmit f =
     (case f_amount f of
        None \<Rightarrow> Rejected
      | Some a \<Rightarrow>
          (if f_date f = [] \<or> a \<le> 0 then Rejected
           else
             (case f_editing f of
                Some e \<Rightarrow>
                  Updated \<lparr>date = f_date f, category = f_category f,
                           description = f_description f, amount = a, type_tx = f_type f,
                           id_tx = id_tx e, reimbursed = reimbursed e\<rparr>
              | None \<Rightarrow>
                  Added \<lparr>date = f_date f, category = f_category f,
                         description = f_description f, amount = a, type_tx = f_type f\<rparr>)))"

text \<open>
  The transaction that a submission commits to the repository: none when rejected, the
  updated one, or the new one made at the clock reading \<open>now\<close>.
\<close>

definition committed :: "nat \<Rightarrow> submit_result \<Rightarrow> Transaction option" where
  "committed now r =
     (case r of
        Rejected \<Rightarrow> None
      | Updated t \<Rightarrow> Some t
      | Added d \<Rightarrow> Some (newTransaction now d))"

section \<open>Numbers: evaluation\<close>

text \<open>Rules that evaluate \<open>round64\<close> on a given rational.\<close>

lemma bitLength_0: "bitLength 0 = 0"
  by (simp add: bitLength.simps)

lemma bitLength_Suc_0: "bitLength (Suc 0) = Suc 0"
  by (subst bitLength.simps) (simp add: bitLength_0)

lemma bitLength_numeral: "bitLength (numeral k) = Suc (bitLength (numeral k div 2))"
  by (subst bitLength.simps) simp

lemma floor_rat_numeral:
  "\<lfloor>(numeral a :: rat) / numeral b\<rfloor> = numeral a div numeral b"
  using floor_divide_of_int_eq [of "numeral a" "numeral b", where ?'a = rat] by simp

lemma ceiling_rat_numeral:
  "\<lceil>(numeral a :: rat) / numeral b\<rceil> = - ((- numeral a) div numeral b)"
  using floor_divide_of_int_eq [of "- numeral a" "numeral b", where ?'a = rat]
  by (simp add: ceiling_def)

lemmas round64_eval = round64_def floorLog2_def roundHalfEven_def pow2_def Let_def
  bitLength_0 bitLength_Suc_0 bitLength_numeral floor_rat_numeral ceiling_rat_numeral

text \<open>
  The binary64 numbers nearest to 0.1, 0.2 and 0.3, which is what \<^verbatim>\<open>parseFloat\<close> gives
  for these texts, and the sums that the two orders of addition go through.
\<close>

lemma round64_tenth: "round64 (1 / 10) = Finite (3602879701896397 / 36028797018963968)"
  by (simp add: round64_eval)

lemma round64_fifth: "round64 (1 / 5) = Finite (3602879701896397 / 18014398509481984)"
  by (simp add: round64_eval)

lemma round64_three_tenths: "round64 (3 / 10) = Finite (5404319552844595 / 18014398509481984)"
  by (simp add: round64_eval)

lemma sum_tenth_fifth:
  "Finite (3602879701896397 / 36028797018963968) + Finite (3602879701896397 / 18014398509481984)
     = Finite (1351079888211149 / 4503599627370496)"
  by (simp add: round64_eval)

lemma sum_tenth_fifth_three_tenths:
  "Finite (1351079888211149 / 4503599627370496) + Finite (5404319552844595 / 18014398509481984)
     = Finite (1351079888211149 / 2251799813685248)"
  by (simp add: round64_eval)

lemma sum_zero_fifth:
  "0 + Finite (3602879701896397 / 18014398509481984)
     = Finite (3602879701896397 / 18014398509481984)"
  by (simp add: zero_number_def round64_eval)

lemma sum_fifth_three_tenths:
  "Finite (3602879701896397 / 18014398509481984) + Finite (5404319552844595 / 18014398509481984)
     = Finite (1 / 2)"
  by (simp add: round64_eval)

lemma sum_tenth_half:
  "Finite (3602879701896397 / 36028797018963968) + Finite (1 / 2)
     = Finite (5404319552844595 / 9007199254740992)"
  by (simp add: round64_eval)

text \<open>Above \<open>2 ^ 53\<close> the odd integers are not binary64 numbers.\<close>

lemma sum_two_pow_53_one: "Finite 9007199254740992 + Finite 1 = Finite 9007199254740992"
  by (simp add: round64_eval)

lemma sum_5000:
  "0 + Finite 5000 = Finite 5000"
  "0 + Finite (- 5000) = Finite (- 5000)"
  "Finite (- 5000) + Finite 5000 = 0"
  by (simp_all add: zero_number_def round64_eval)

section \<open>Aggregation: proofs\<close>

lemma visibleBalance_step_contribution:
  "visibleBalance_step acc t = acc + contribution t"
  by (simp add: visibleBalance_step_def contribution_def)

lemma foldl_visibleBalance_step:
  "foldl visibleBalance_step a ts = foldl (\<lambda>acc t. acc + contribution t) a ts"
  by (induction ts arbitrary: a) (simp_all add: visibleBalance_step_contribution)

text \<open>
  C1, as stated, fails: the additions round, so the balance, which adds each
  contribution to the running total that starts at the initial balance, is not the
  initial balance plus the sum of the contributions. With the initial balance 0.1 and
  two incomes of 0.2 and 0.3 the balance is 0.6000000000000001 and the initial balance
  plus the sum is 0.6.
\<close>

theorem visibleBalance_sum_counterexample:
  "visibleBalance (initial_state\<lparr>initialBalance := Some (round64 (1 / 10)), transactions :=
       [\<lparr>date = ''2024-01-05'', category = OTHER_ADJUSTMENT, description = ''a'',
         amount = round64 (1 / 5), type_tx = income, id_tx = ''1'', reimbursed = False\<rparr>,
        \<lparr>date = ''2024-01-04'', category = OTHER_ADJUSTMENT, description = ''b'',
         amount = round64 (3 / 10), type_tx = income, id_tx = ''2'', reimbursed = False\<rparr>]\<rparr>)
     = Finite (1351079888211149 / 2251799813685248)
   \<and> spec_visibleBalance (initial_state\<lparr>initialBalance := Some (round64 (1 / 10)),
       transactions :=
       [\<lparr>date = ''2024-01-05'', category = OTHER_ADJUSTMENT, description = ''a'',
         amount = round64 (1 / 5), type_tx = income, id_tx = ''1'', reimbursed = False\<rparr>,
        \<lparr>date = ''2024-01-04'', category = OTHER_ADJUSTMENT, description = ''b'',
         amount = round64 (3 / 10), type_tx = income, id_tx = ''2'', reimbursed = False\<rparr>]\<rparr>)
     = Finite (5404319552844595 / 9007199254740992)
   \<and> Finite (1351079888211149 / 2251799813685248)
     \<noteq> Finite (5404319552844595 / 9007199254740992)"
  by (simp add: visibleBalance_def spec_visibleBalance_def visibleBalance_step_def
      contribution_def nullish_def round64_tenth round64_fifth round64_three_tenths
      sum_tenth_fifth sum_tenth_fifth_three_tenths sum_zero_fifth sum_fifth_three_tenths
      sum_tenth_half del: plus_number.simps)

text \<open>
  C1, amended. For every transaction list and every initial balance, \<open>visibleBalance\<close> is
  the left fold over all transactions, started at the initial balance (at 0 when the
  initial balance is not set), that adds \<open>+amount\<close> for an income, \<open>-amount\<close> for an
  expense and 0 for a reimbursed invoice-reimbursement expense, each addition rounded;
  it does not depend on the category filter or on the search query.
\<close>

theorem visibleBalance_left_fold:
  "visibleBalance (s\<lparr>transactions := ts, initialBalance := Some b\<rparr>)
     = foldl (\<lambda>acc t. acc + contribution t) b ts
   \<and> visibleBalance (s\<lparr>transactions := ts, initialBalance := None\<rparr>)
     = foldl (\<lambda>acc t. acc + contribution t) 0 ts
   \<and> visibleBalance (s\<lparr>visibleCategories := vc, searchQuery := q\<rparr>) = visibleBalance s"
  by (simp add: visibleBalance_def nullish_def foldl_visibleBalance_step)

text \<open>
  C4. \<open>verificationTotal\<close> is \<open>invoiceOnlyBalance\<close> plus \<open>unreimbursedTotal\<close> on every
  state; with initial balance 0 and exactly one unreimbursed invoice-reimbursement
  expense of 5000, \<open>unreimbursedTotal\<close> is 5000, \<open>invoiceOnlyBalance\<close> is -5000 and
  \<open>verificationTotal\<close> is 0.
\<close>

theorem verificationTotal_scenario:
  "verificationTotal s = invoiceOnlyBalance s + unreimbursedTotal s
   \<and> unreimbursedTotal (s\<lparr>initialBalance := Some 0, transactions :=
        [\<lparr>date = d, category = INVOICE_REIMBURSEMENT, description = ds, amount = Finite 5000,
          type_tx = expense, id_tx = i, reimbursed = False\<rparr>]\<rparr>) = Finite 5000
   \<and> invoiceOnlyBalance (s\<lparr>initialBalance := Some 0, transactions :=
        [\<lparr>date = d, category = INVOICE_REIMBURSEMENT, description = ds, amount = Finite 5000,
          type_tx = expense, id_tx = i, reimbursed = False\<rparr>]\<rparr>) = Finite (- 5000)
   \<and> verificationTotal (s\<lparr>initialBalance := Some 0, transactions :=
        [\<lparr>date = d, category = INVOICE_REIMBURSEMENT, description = ds, amount = Finite 5000,
          type_tx = expense, id_tx = i, reimbursed = False\<rparr>]\<rparr>) = 0"
  by (simp add: verificationTotal_def invoiceOnlyBalance_def unreimbursedTotal_def
      invoiceOnlyBalance_step_def unreimbursedTotal_step_def nullish_def sum_5000
      del: plus_number.simps)

section \<open>Selection rules: proofs\<close>

lemma selected_nonempty_iff:
  "selected s \<noteq> [] \<longleftrightarrow> (\<exists>t \<in> set (transactions s). id_tx t \<in> selectedTransactionIds s)"
  by (auto simp: selected_def filter_empty_conv)

lemma selected_nonempty_selection:
  "selected s \<noteq> [] \<Longrightarrow> selectedTransactionIds s \<noteq> {}"
  by (auto simp: selected_nonempty_iff)

text \<open>
  C3, as stated, fails on a stale selection: with an empty repository and the selection
  \<open>{x}\<close>, every selected transaction (there is none) is an unreimbursed invoice and the
  selection is non-empty, yet \<open>canReimburse\<close> is false; the same for
  \<open>canCancelReimbursement\<close>.
\<close>

theorem canReimburse_stale_counterexample:
  "\<not> (canReimburse (initial_state\<lparr>selectedTransactionIds := {''x''}\<rparr>)
        = spec_canReimburse (initial_state\<lparr>selectedTransactionIds := {''x''}\<rparr>))
   \<and> \<not> (canCancelReimbursement (initial_state\<lparr>selectedTransactionIds := {''x''}\<rparr>)
        = spec_canCancelReimbursement (initial_state\<lparr>selectedTransactionIds := {''x''}\<rparr>))"
  by (simp add: canReimburse_def canCancelReimbursement_def spec_canReimburse_def
      spec_canCancelReimbursement_def selected_def initial_state_def)

text \<open>
  C3, amended. \<open>canReimburse\<close> holds iff at least one transaction of the list is
  selected and every selected transaction of the list is an invoice reimbursement with
  \<open>reimbursed = false\<close>; \<open>canCancelReimbursement\<close> holds iff at least one transaction of
  the list is selected and every selected one is an invoice reimbursement with
  \<open>reimbursed = true\<close>; the two are never both true.
\<close>

theorem canReimburse_canCancel_exclusive:
  "(canReimburse s \<longleftrightarrow>
      selected s \<noteq> [] \<and>
      (\<forall>t \<in> set (transactions s). id_tx t \<in> selectedTransactionIds s \<longrightarrow>
         category t = INVOICE_REIMBURSEMENT \<and> \<not> reimbursed t))
   \<and> (canCancelReimbursement s \<longleftrightarrow>
      selected s \<noteq> [] \<and>
      (\<forall>t \<in> set (transactions s). id_tx t \<in> selectedTransactionIds s \<longrightarrow>
         category t = INVOICE_REIMBURSEMENT \<and> reimbursed t))
   \<and> \<not> (canReimburse s \<and> canCancelReimbursement s)"
proof -
  have sel: "selected s \<noteq> [] \<Longrightarrow> selectedTransactionIds s \<noteq> {}"
    by (rule selected_nonempty_selection)
  have all: "list_all P (selected s) \<longleftrightarrow>
      (\<forall>t \<in> set (transactions s). id_tx t \<in> selectedTransactionIds s \<longrightarrow> P t)" for P
    by (auto simp: selected_def list_all_iff)
  have r: "canReimburse s \<longleftrightarrow>
      selected s \<noteq> [] \<and>
      (\<forall>t \<in> set (transactions s). id_tx t \<in> selectedTransactionIds s \<longrightarrow>
         category t = INVOICE_REIMBURSEMENT \<and> \<not> reimbursed t)"
    using sel by (auto simp: canReimburse_def all)
  have c: "canCancelReimbursement s \<longleftrightarrow>
      selected s \<noteq> [] \<and>
      (\<forall>t \<in> set (transactions s). id_tx t \<in> selectedTransactionIds s \<longrightarrow>
         category t = INVOICE_REIMBURSEMENT \<and> reimbursed t)"
    using sel by (auto simp: canCancelReimbursement_def all)
  have "\<not> (canReimburse s \<and> canCancelReimbursement s)"
    unfolding r c by (auto simp: selected_nonempty_iff)
  with r c show ?thesis by blast
qed

theorem canReimburse_canCancel_exclusive_witness:
  "canReimburse (initial_state\<lparr>transactions :=
       [\<lparr>date = ''2024-01-05'', category = INVOICE_REIMBURSEMENT, description = ''paper'',
         amount = Finite 120, type_tx = expense, id_tx = ''7'', reimbursed = False\<rparr>],
       selectedTransactionIds := {''7''}\<rparr>)
   \<and> \<not> canCancelReimbursement (initial_state\<lparr>transactions :=
       [\<lparr>date = ''2024-01-05'', category = INVOICE_REIMBURSEMENT, description = ''paper'',
         amount = Finite 120, type_tx = expense, id_tx = ''7'', reimbursed = False\<rparr>],
       selectedTransactionIds := {''7''}\<rparr>)"
  using canReimburse_canCancel_exclusive [of "initial_state\<lparr>transactions :=
       [\<lparr>date = ''2024-01-05'', category = INVOICE_REIMBURSEMENT, description = ''paper'',
         amount = Finite 120, type_tx = expense, id_tx = ''7'', reimbursed = False\<rparr>],
       selectedTransactionIds := {''7''}\<rparr>"]
  by (simp add: selected_def initial_state_def)

text \<open>
  C10. When the selection is non-empty but no selected identifier is the identifier of a
  transaction of the repository, both \<open>canReimburse\<close> and \<open>canCancelReimbursement\<close>
  are false.
\<close>

theorem stale_selection_disables_both:
  assumes "selectedTransactionIds s \<noteq> {}"
    and "\<forall>t \<in> set (transactions s). id_tx t \<notin> selectedTransactionIds s"
  shows "\<not> canReimburse s \<and> \<not> canCancelReimbursement s"
proof -
  from assms(2) have "selected s = []"
    by (simp add: selected_def filter_empty_conv)
  then show ?thesis
    by (simp add: canReimburse_def canCancelReimbursement_def)
qed

text \<open>C10 on a repository of one unreimbursed invoice that the selection does not name.\<close>

theorem stale_selection_disables_both_witness:
  "selectedTransactionIds (initial_state\<lparr>transactions :=
       [\<lparr>date = ''2024-01-05'', category = INVOICE_REIMBURSEMENT, description = ''paper'',
         amount = Finite 120, type_tx = expense, id_tx = ''7'', reimbursed = False\<rparr>],
       selectedTransactionIds := {''gone''}\<rparr>) \<noteq> {}
   \<and> \<not> canReimburse (initial_state\<lparr>transactions :=
       [\<lparr>date = ''2024-01-05'', category = INVOICE_REIMBURSEMENT, description = ''paper'',
         amount = Finite 120, type_tx = expense, id_tx = ''7'', reimbursed = False\<rparr>],
       selectedTransactionIds := {''gone''}\<rparr>)
   \<and> \<not> canCancelReimbursement (initial_state\<lparr>transactions :=
       [\<lparr>date = ''2024-01-05'', category = INVOICE_REIMBURSEMENT, description = ''paper'',
         amount = Finite 120, type_tx = expense, id_tx = ''7'', reimbursed = False\<rparr>],
       selectedTransactionIds := {''gone''}\<rparr>)"
proof -
  let ?s = "initial_state\<lparr>transactions :=
       [\<lparr>date = ''2024-01-05'', category = INVOICE_REIMBURSEMENT, description = ''paper'',
         amount = Finite 120, type_tx = expense, id_tx = ''7'', reimbursed = False\<rparr>],
       selectedTransactionIds := {''gone''}\<rparr>"
  have h1: "selectedTransactionIds ?s \<noteq> {}" by simp
  have h2: "\<forall>t \<in> set (transactions ?s). id_tx t \<notin> selectedTransactionIds ?s" by simp
  from stale_selection_disables_both [OF h1 h2] h1 show ?thesis by (intro conjI) simp_all
qed

section \<open>Sorting: proofs\<close>

lemma localeCompare_le: "localeCompare x y \<le> 0 \<longleftrightarrow> x \<le> y"
proof (induction x y rule: localeCompare.induct)
  case (4 x xs y ys)
  then show ?case
    by (auto simp: less_char_def less_eq_char_def)
qed simp_all

lemma byDateDesc_le: "byDateDesc a b \<le> 0 \<longleftrightarrow> date b \<le> date a"
  by (simp add: byDateDesc_def localeCompare_le)

lemma set_insert_array: "set (insert_array cmp x ys) = insert x (set ys)"
  by (induction ys) auto

lemma length_insert_array: "length (insert_array cmp x ys) = Suc (length ys)"
  by (induction ys) auto

lemma set_sort_array: "set (sort_array cmp xs) = set xs"
  by (induction xs) (simp_all add: set_insert_array)

lemma length_sort_array: "length (sort_array cmp xs) = length xs"
  by (induction xs) (simp_all add: length_insert_array)

lemma date_descending_insert:
  "date_descending ys \<Longrightarrow> date_descending (insert_array byDateDesc x ys)"
proof (induction ys)
  case Nil
  then show ?case by (simp add: date_descending_def)
next
  case (Cons y ys)
  then show ?case
    by (auto simp: date_descending_def byDateDesc_le set_insert_array)
qed

lemma date_descending_sort: "date_descending (sort_array byDateDesc xs)"
proof (induction xs)
  case Nil
  show ?case by (simp add: date_descending_def)
next
  case (Cons x xs)
  then show ?case by (simp add: date_descending_insert)
qed

lemma sort_array_sorted:
  "date_descending xs \<Longrightarrow> sort_array byDateDesc xs = xs"
proof (induction xs)
  case Nil
  show ?case by simp
next
  case (Cons x xs)
  then have ih: "sort_array byDateDesc xs = xs" and hd: "\<forall>y \<in> set xs. date y \<le> date x"
    by (simp_all add: date_descending_def)
  from hd have "insert_array byDateDesc x xs = x # xs"
    by (cases xs) (simp_all add: byDateDesc_le)
  with ih show ?case by simp
qed

lemma date_descending_filter: "date_descending ts \<Longrightarrow> date_descending (filter P ts)"
  by (simp add: date_descending_def sorted_wrt_filter)

lemma date_descending_map:
  "date_descending ts \<Longrightarrow> (\<And>t. date (f t) = date t) \<Longrightarrow> date_descending (map f ts)"
  by (simp add: date_descending_def sorted_wrt_map)

section \<open>Transaction repository: proofs\<close>

lemma toString_1000: "toString 1000 = ''1000''"
  by code_simp

lemma toString_999: "toString 999 = ''999''"
  by code_simp

lemma toString_nonempty: "toString n \<noteq> []"
  by (subst toString.simps) simp

lemma digit_inj:
  assumes "a < 10" and "b < 10" and "(char_of (48 + a) :: char) = char_of (48 + b)"
  shows "a = (b::nat)"
proof -
  from assms(3)
  have "(of_char (char_of (48 + a) :: char) :: nat) = of_char (char_of (48 + b) :: char)"
    by simp
  with assms(1,2) show ?thesis by (simp add: of_char_of)
qed

lemma toString_inj: "toString m = toString n \<Longrightarrow> m = n"
proof (induction m arbitrary: n rule: toString.induct)
  case (1 m)
  show ?case
  proof (cases "m < 10")
    case True
    note m = this
    show ?thesis
    proof (cases "n < 10")
      case True
      with m 1(2) show ?thesis
        by (simp add: toString.simps[of m] toString.simps[of n] digit_inj)
    next
      case False
      with m 1(2) show ?thesis
        using toString_nonempty[of "n div 10"]
        by (simp add: toString.simps[of m] toString.simps[of n])
    qed
  next
    case False
    note m = this
    show ?thesis
    proof (cases "n < 10")
      case True
      with m 1(2) show ?thesis
        using toString_nonempty[of "m div 10"]
        by (simp add: toString.simps[of m] toString.simps[of n])
    next
      case False
      with m 1(2) have e: "toString (m div 10) = toString (n div 10)"
        and d: "(char_of (48 + m mod 10) :: char) = char_of (48 + n mod 10)"
        by (simp_all add: toString.simps[of m] toString.simps[of n])
      from 1(1)[OF m e] have "m div 10 = n div 10" .
      moreover from d have "m mod 10 = n mod 10" by (intro digit_inj) simp_all
      ultimately show ?thesis by (metis div_mult_mod_eq)
    qed
  qed
qed

lemma newTransaction_fields:
  "reimbursed (newTransaction now d) = False" "id_tx (newTransaction now d) = toString now"
  "date (newTransaction now d) = date d" "category (newTransaction now d) = category d"
  "type_tx (newTransaction now d) = type_tx d" "amount (newTransaction now d) = amount d"
  "description (newTransaction now d) = description d"
  by (simp_all add: newTransaction_def)

text \<open>
  C7. Date-descending order (under the lexicographic order of the date strings) is kept
  by every mutation of the repository: if the list is sorted before an addition, an
  update, the deletion of one record, the bulk deletion of the selection or the change
  of the reimbursed flag, it is sorted afterwards.
\<close>

theorem mutations_keep_date_descending:
  assumes "date_descending (transactions s)"
  shows "date_descending (transactions (handleAddTransaction now d s))
    \<and> date_descending (transactions (handleUpdateTransaction u s))
    \<and> date_descending (transactions (handleDelete (onDelete t s)))
    \<and> date_descending (transactions (handleDelete (onBulkDelete s)))
    \<and> date_descending (transactions (handleDelete s))
    \<and> date_descending (transactions (handleReimburse r s))"
proof -
  have add: "date_descending (transactions (handleAddTransaction now d s))"
    by (simp add: handleAddTransaction_def date_descending_sort)
  have upd: "date_descending (transactions (handleUpdateTransaction u s))"
    by (simp add: handleUpdateTransaction_def date_descending_sort)
  have del: "date_descending (transactions (handleDelete s'))"
    if "date_descending (transactions s')" for s'
    using that
    by (simp add: handleDelete_def date_descending_filter split: option.splits)
  have reim: "date_descending (transactions (handleReimburse r s))"
    using assms by (simp add: handleReimburse_def date_descending_map)
  from assms have "date_descending (transactions (onDelete t s))"
    and "date_descending (transactions (onBulkDelete s))"
    by (simp_all add: onDelete_def onBulkDelete_def)
  with add upd reim del assms show ?thesis by blast
qed

text \<open>C7 on a repository of two records, to which a third is added in the middle.\<close>

theorem mutations_keep_date_descending_witness:
  "date_descending (transactions (initial_state\<lparr>transactions :=
        [\<lparr>date = ''2024-02-07'', category = OTHER_ADJUSTMENT, description = ''b'',
          amount = Finite 20, type_tx = expense, id_tx = ''2'', reimbursed = False\<rparr>,
         \<lparr>date = ''2024-01-05'', category = OTHER_ADJUSTMENT, description = ''a'',
          amount = Finite 10, type_tx = income, id_tx = ''1'', reimbursed = False\<rparr>]\<rparr>))
   \<and> date_descending (transactions (handleAddTransaction 1000
       \<lparr>date = ''2024-01-20'', category = OTHER_ADJUSTMENT, description = ''c'',
        amount = Finite 5, type_tx = expense\<rparr>
       (initial_state\<lparr>transactions :=
        [\<lparr>date = ''2024-02-07'', category = OTHER_ADJUSTMENT, description = ''b'',
          amount = Finite 20, type_tx = expense, id_tx = ''2'', reimbursed = False\<rparr>,
         \<lparr>date = ''2024-01-05'', category = OTHER_ADJUSTMENT, description = ''a'',
          amount = Finite 10, type_tx = income, id_tx = ''1'', reimbursed = False\<rparr>]\<rparr>)))
   \<and> transactions (handleAddTransaction 1000
       \<lparr>date = ''2024-01-20'', category = OTHER_ADJUSTMENT, description = ''c'',
        amount = Finite 5, type_tx = expense\<rparr>
       (initial_state\<lparr>transactions :=
        [\<lparr>date = ''2024-02-07'', category = OTHER_ADJUSTMENT, description = ''b'',
          amount = Finite 20, type_tx = expense, id_tx = ''2'', reimbursed = False\<rparr>,
         \<lparr>date = ''2024-01-05'', category = OTHER_ADJUSTMENT, description = ''a'',
          amount = Finite 10, type_tx = income, id_tx = ''1'', reimbursed = False\<rparr>]\<rparr>))
     = [\<lparr>date = ''2024-02-07'', category = OTHER_ADJUSTMENT, description = ''b'',
          amount = Finite 20, type_tx = expense, id_tx = ''2'', reimbursed = False\<rparr>,
        \<lparr>date = ''2024-01-20'', category = OTHER_ADJUSTMENT, description = ''c'',
          amount = Finite 5, type_tx = expense, id_tx = ''1000'', reimbursed = False\<rparr>,
        \<lparr>date = ''2024-01-05'', category = OTHER_ADJUSTMENT, description = ''a'',
          amount = Finite 10, type_tx = income, id_tx = ''1'', reimbursed = False\<rparr>]"
proof -
  let ?s = "initial_state\<lparr>transactions :=
        [\<lparr>date = ''2024-02-07'', category = OTHER_ADJUSTMENT, description = ''b'',
          amount = Finite 20, type_tx = expense, id_tx = ''2'', reimbursed = False\<rparr>,
         \<lparr>date = ''2024-01-05'', category = OTHER_ADJUSTMENT, description = ''a'',
          amount = Finite 10, type_tx = income, id_tx = ''1'', reimbursed = False\<rparr>]\<rparr>"
  let ?d = "\<lparr>date = ''2024-01-20'', category = OTHER_ADJUSTMENT, description = ''c'',
        amount = Finite 5, type_tx = expense\<rparr>"
  have h: "date_descending (transactions ?s)" by (simp add: date_descending_def)
  from mutations_keep_date_descending [OF h, of 1000 ?d]
  have a: "date_descending (transactions (handleAddTransaction 1000 ?d ?s))" by (rule conjunct1)
  have b: "transactions (handleAddTransaction 1000 ?d ?s) =
      [\<lparr>date = ''2024-02-07'', category = OTHER_ADJUSTMENT, description = ''b'',
          amount = Finite 20, type_tx = expense, id_tx = ''2'', reimbursed = False\<rparr>,
        \<lparr>date = ''2024-01-20'', category = OTHER_ADJUSTMENT, description = ''c'',
          amount = Finite 5, type_tx = expense, id_tx = ''1000'', reimbursed = False\<rparr>,
        \<lparr>date = ''2024-01-05'', category = OTHER_ADJUSTMENT, description = ''a'',
          amount = Finite 10, type_tx = income, id_tx = ''1'', reimbursed = False\<rparr>]"
    by (simp add: handleAddTransaction_def newTransaction_def toString_1000 byDateDesc_def)
  from h a b show ?thesis by (intro conjI)
qed

text \<open>
  C8, as stated, fails: the identifier is the decimal string of the clock reading and no
  handler compares it with the identifiers in the repository. With a record whose
  identifier is \<open>1000\<close> in the repository, an addition at the clock reading 1000 creates
  a second record with that identifier.
\<close>

theorem add_duplicate_id_counterexample:
  "\<not> (id_tx (newTransaction 1000
          \<lparr>date = ''2024-03-01'', category = OTHER_ADJUSTMENT, description = ''b'',
           amount = Finite 5, type_tx = expense\<rparr>)
        \<notin> id_tx ` set (transactions (initial_state\<lparr>transactions :=
             [\<lparr>date = ''2024-02-01'', category = OTHER_ADJUSTMENT, description = ''a'',
               amount = Finite 10, type_tx = income, id_tx = ''1000'', reimbursed = False\<rparr>]\<rparr>)))"
  by (simp add: newTransaction_fields toString_1000)

text \<open>
  C8, amended. For every addition at the clock reading \<open>now\<close>, the new transaction has
  \<open>reimbursed = false\<close> and the decimal string of \<open>now\<close> as its identifier; that
  identifier differs from every identifier of the repository when each of them is the
  decimal string of another clock reading; the resulting list holds the new transaction
  and the previous ones, and it is sorted by date descending.
\<close>

theorem add_creates_unreimbursed_sorted:
  "reimbursed (newTransaction now d) = False
   \<and> id_tx (newTransaction now d) = toString now
   \<and> ((\<forall>t \<in> set (transactions s). \<exists>m. m \<noteq> now \<and> id_tx t = toString m) \<longrightarrow>
        id_tx (newTransaction now d) \<notin> id_tx ` set (transactions s))
   \<and> set (transactions (handleAddTransaction now d s))
        = insert (newTransaction now d) (set (transactions s))
   \<and> length (transactions (handleAddTransaction now d s)) = Suc (length (transactions s))
   \<and> date_descending (transactions (handleAddTransaction now d s))"
proof -
  have fresh: "id_tx (newTransaction now d) \<notin> id_tx ` set (transactions s)"
    if h: "\<forall>t \<in> set (transactions s). \<exists>m. m \<noteq> now \<and> id_tx t = toString m"
  proof
    assume "id_tx (newTransaction now d) \<in> id_tx ` set (transactions s)"
    then obtain t where t: "t \<in> set (transactions s)" and e: "id_tx t = toString now"
      by (auto simp: newTransaction_fields)
    from h t obtain m where "m \<noteq> now" and "id_tx t = toString m" by blast
    with e show False by (auto dest: toString_inj)
  qed
  then show ?thesis
    by (simp add: newTransaction_fields handleAddTransaction_def set_sort_array
        length_sort_array date_descending_sort)
qed

text \<open>C8, amended, at the clock reading 1000 on a repository whose record was made at 999.\<close>

theorem add_creates_unreimbursed_sorted_witness:
  "id_tx (newTransaction 1000
       \<lparr>date = ''2024-01-20'', category = OTHER_ADJUSTMENT, description = ''c'',
        amount = Finite 5, type_tx = expense\<rparr>)
     \<notin> id_tx ` set (transactions (initial_state\<lparr>transactions :=
        [\<lparr>date = ''2024-01-05'', category = OTHER_ADJUSTMENT, description = ''a'',
          amount = Finite 10, type_tx = income, id_tx = ''999'', reimbursed = False\<rparr>]\<rparr>))
   \<and> date_descending (transactions (handleAddTransaction 1000
       \<lparr>date = ''2024-01-20'', category = OTHER_ADJUSTMENT, description = ''c'',
        amount = Finite 5, type_tx = expense\<rparr>
       (initial_state\<lparr>transactions :=
        [\<lparr>date = ''2024-01-05'', category = OTHER_ADJUSTMENT, description = ''a'',
          amount = Finite 10, type_tx = income, id_tx = ''999'', reimbursed = False\<rparr>]\<rparr>)))"
proof -
  let ?s = "initial_state\<lparr>transactions :=
        [\<lparr>date = ''2024-01-05'', category = OTHER_ADJUSTMENT, description = ''a'',
          amount = Finite 10, type_tx = income, id_tx = ''999'', reimbursed = False\<rparr>]\<rparr>"
  have "(999::nat) \<noteq> 1000 \<and> ''999'' = toString 999" by (simp add: toString_999)
  then have "\<exists>m. m \<noteq> (1000::nat) \<and> ''999'' = toString m" by (rule exI)
  then have h: "\<forall>t \<in> set (transactions ?s). \<exists>m. m \<noteq> 1000 \<and> id_tx t = toString m"
    by simp
  from add_creates_unreimbursed_sorted [of 1000 _ ?s] h show ?thesis
    by blast
qed

text \<open>
  C2. Deleting a selected transaction should remove its identifier from the repository
  and from the selection. The deletion of one record does not: with the record \<open>7\<close>
  in the repository and in the selection, the bin of the row followed by the
  confirmation empties the repository and leaves \<open>7\<close> in the selection.
\<close>

theorem single_delete_keeps_selection:
  "transactions (handleDelete (onDelete
       \<lparr>date = ''2024-01-05'', category = INVOICE_REIMBURSEMENT, description = ''paper'',
        amount = Finite 120, type_tx = expense, id_tx = ''7'', reimbursed = False\<rparr>
       (initial_state\<lparr>transactions :=
          [\<lparr>date = ''2024-01-05'', category = INVOICE_REIMBURSEMENT, description = ''paper'',
            amount = Finite 120, type_tx = expense, id_tx = ''7'', reimbursed = False\<rparr>],
          selectedTransactionIds := {''7''}\<rparr>))) = []
   \<and> ''7'' \<in> selectedTransactionIds (handleDelete (onDelete
       \<lparr>date = ''2024-01-05'', category = INVOICE_REIMBURSEMENT, description = ''paper'',
        amount = Finite 120, type_tx = expense, id_tx = ''7'', reimbursed = False\<rparr>
       (initial_state\<lparr>transactions :=
          [\<lparr>date = ''2024-01-05'', category = INVOICE_REIMBURSEMENT, description = ''paper'',
            amount = Finite 120, type_tx = expense, id_tx = ''7'', reimbursed = False\<rparr>],
          selectedTransactionIds := {''7''}\<rparr>)))"
  by (simp add: handleDelete_def onDelete_def truthy_def initial_state_def)

lemma single_delete_selection_unchanged:
  "selectedTransactionIds (handleDelete (onDelete t s)) = selectedTransactionIds s"
  by (simp add: handleDelete_def onDelete_def)

lemma single_delete_removes_from_repository:
  "id_tx t \<notin> id_tx ` set (transactions (handleDelete (onDelete t s)))"
  if "id_tx t \<noteq> []"
  using that by (auto simp: handleDelete_def onDelete_def truthy_def)

lemma bulk_delete_removes:
  "id_tx t \<notin> id_tx ` set (transactions (handleDelete (onBulkDelete s)))
     \<union> selectedTransactionIds (handleDelete (onBulkDelete s))"
  if "id_tx t \<in> selectedTransactionIds s"
  using that by (auto simp: handleDelete_def onBulkDelete_def)

section \<open>Export and import: proofs\<close>

lemma categoryOfString_categoryString: "categoryOfString (categoryString c) = Some c"
  by (cases c) (simp_all add: categoryOfString_def)

lemma typeOfString_typeString: "typeOfString (typeString ty) = Some ty"
  by (cases ty) (simp_all add: typeOfString_def)

lemma jsonNumber_finite: "isFinite n \<Longrightarrow> jsonNumber n = JNumber n"
  by (cases n) (simp_all add: jsonNumber_def isFinite_def)

lemma jsonNumber_NaN: "jsonNumber NaN = JNull"
  by (simp add: jsonNumber_def)

lemma asTransaction_transactionToJson:
  "isFinite (amount t) \<Longrightarrow> asTransaction (transactionToJson t) = Some t"
  by (simp add: asTransaction_def transactionToJson_def getString_def getNumber_def
      getBool_def getProp_def categoryOfString_categoryString typeOfString_typeString
      jsonNumber_finite)

lemma stringDate_transactionToJson: "stringDate (transactionToJson t) = date t"
  by (simp add: stringDate_def transactionToJson_def getString_def getProp_def)

lemma hasIsoDate_transactionToJson: "hasIsoDate (transactionToJson t) = isoDate (date t)"
  by (simp add: hasIsoDate_def transactionToJson_def getString_def getProp_def)

lemma hasStringDate_transactionToJson: "hasStringDate (transactionToJson t)"
  by (simp add: hasStringDate_def transactionToJson_def getString_def getProp_def)

lemma rawByDateDesc_transactionToJson:
  "rawByDateDesc (transactionToJson a) (transactionToJson b) = byDateDesc a b"
  by (simp add: rawByDateDesc_def byDateDesc_def stringDate_transactionToJson)

lemma insert_array_map:
  assumes "\<And>x y. cmp' (f x) (f y) = cmp x y"
  shows "insert_array cmp' (f x) (map f ys) = map f (insert_array cmp x ys)"
  by (induction ys) (simp_all add: assms)

lemma sort_array_map:
  assumes "\<And>x y. cmp' (f x) (f y) = cmp x y"
  shows "sort_array cmp' (map f xs) = map f (sort_array cmp xs)"
  by (induction xs) (simp_all add: insert_array_map [of cmp' f cmp, OF assms])

lemma sort_array_short: "length xs \<le> 1 \<Longrightarrow> sort_array cmp xs = xs"
  by (cases xs) (auto simp: Suc_le_eq)

lemma typedOrRaw_export:
  assumes "list_all (\<lambda>t. isFinite (amount t)) ts"
  shows "typedOrRaw (map transactionToJson ts) = Sorted ts"
proof -
  from assms have a: "list_all (\<lambda>v. asTransaction v \<noteq> None) (map transactionToJson ts)"
    by (simp add: list_all_iff asTransaction_transactionToJson)
  from assms have b: "map (\<lambda>v. the (asTransaction v)) (map transactionToJson ts) = ts"
    by (simp add: list_all_iff asTransaction_transactionToJson map_idI)
  show ?thesis by (simp only: typedOrRaw_def a b if_True)
qed

lemma sortImported_export:
  assumes "list_all (\<lambda>t. isFinite (amount t) \<and> isoDate (date t)) ts"
  shows "sortImported (map transactionToJson ts) = Sorted (sort_array byDateDesc ts)"
proof (cases "length ts \<le> 1")
  case True
  from assms have "list_all (\<lambda>t. isFinite (amount t)) ts" by (simp add: list_all_iff)
  with True show ?thesis
    by (simp add: sortImported_def typedOrRaw_export sort_array_short)
next
  case False
  then obtain t where t: "t \<in> set ts" by (cases ts) auto
  then have ex: "list_ex hasStringDate (map transactionToJson ts)"
    by (auto simp: list_ex_iff hasStringDate_transactionToJson)
  from assms have iso: "list_all hasIsoDate (map transactionToJson ts)"
    by (simp add: list_all_iff hasIsoDate_transactionToJson)
  from assms have "list_all (\<lambda>t. isFinite (amount t)) (sort_array byDateDesc ts)"
    by (simp add: list_all_iff set_sort_array)
  then have "typedOrRaw (map transactionToJson (sort_array byDateDesc ts))
      = Sorted (sort_array byDateDesc ts)"
    by (rule typedOrRaw_export)
  moreover have "sort_array rawByDateDesc (map transactionToJson ts)
      = map transactionToJson (sort_array byDateDesc ts)"
    by (rule sort_array_map) (rule rawByDateDesc_transactionToJson)
  ultimately show ?thesis
    using False ex iso by (simp add: sortImported_def)
qed

lemma getProp_export:
  "getProp (handleExportData s) ''initialBalance''
     = Some (case initialBalance s of None \<Rightarrow> JNull | Some b \<Rightarrow> jsonNumber b)"
  "getProp (handleExportData s) ''targetTotal'' = Some (jsonNumber (targetTotal s))"
  "getProp (handleExportData s) ''transactions''
     = Some (JArray (map transactionToJson (transactions s)))"
  by (simp_all add: getProp_def handleExportData_def)

lemma handleImportData_object:
  "handleImportData (Some (JObject kvs)) confirm s =
     (if formatOk (JObject kvs) then
        (if confirm then
           (case sortImported (elementsOf (getProp (JObject kvs) ''transactions'')) of
              Sorted ts \<Rightarrow>
                Imported
                  (s\<lparr>initialBalance := Some (numberOf (getProp (JObject kvs) ''initialBalance'')),
                     targetTotal := numberOf (getProp (JObject kvs) ''targetTotal''),
                     transactions := ts, isSettingsOpen := False\<rparr>)
            | SortedRaw vs \<Rightarrow>
                ImportedRaw
                  (s\<lparr>initialBalance := Some (numberOf (getProp (JObject kvs) ''initialBalance'')),
                     targetTotal := numberOf (getProp (JObject kvs) ''targetTotal''),
                     isSettingsOpen := False\<rparr>) vs
            | TypeError \<Rightarrow>
                ImportFailed
                  (s\<lparr>initialBalance := Some (numberOf (getProp (JObject kvs) ''initialBalance'')),
                     targetTotal := numberOf (getProp (JObject kvs) ''targetTotal'')\<rparr>)
            | SortUnspecified \<Rightarrow> ImportUnspecified)
         else Cancelled s)
      else ImportFailed s)"
  by (simp add: handleImportData_def Let_def split: sort_result.splits)

lemma formatOk_object: "formatOk data \<Longrightarrow> \<exists>kvs. data = JObject kvs"
  by (cases data) (simp_all add: formatOk_def getProp_def typeofNumber_def)

lemma formatOk_iff:
  "formatOk data \<longleftrightarrow>
     (\<exists>ib tt arr. getProp data ''initialBalance'' = Some (JNumber ib) \<and>
        getProp data ''targetTotal'' = Some (JNumber tt) \<and>
        getProp data ''transactions'' = Some (JArray arr))"
  by (auto simp: formatOk_def typeofNumber_def isArray_def split: option.splits jsval.splits)

text \<open>
  The failure of the format check, like a file that cannot be parsed, leaves the state as
  it was.
\<close>

lemma not_formatOk_fails:
  "\<not> formatOk data \<Longrightarrow> handleImportData (Some data) confirm s = ImportFailed s"
  by (cases data) (simp_all add: handleImportData_def)

lemma unparsed_fails: "handleImportData None confirm s = ImportFailed s"
  by (simp add: handleImportData_def)

lemma import_declined:
  assumes "formatOk data"
  shows "handleImportData (Some data) False s = Cancelled s"
proof -
  from assms obtain kvs where kvs: "data = JObject kvs" by (auto dest: formatOk_object)
  show ?thesis using assms unfolding kvs by (simp add: handleImportData_object)
qed

lemma imported_only_if_ok:
  assumes "handleImportData parsed confirm s = Imported s'"
  shows "\<exists>data. parsed = Some data \<and> formatOk data \<and> confirm"
proof (cases parsed)
  case None
  with assms show ?thesis by (simp add: handleImportData_def)
next
  case (Some data)
  show ?thesis
  proof (cases "formatOk data")
    case False
    with assms Some show ?thesis by (simp add: not_formatOk_fails)
  next
    case True
    then obtain kvs where "data = JObject kvs" by (auto dest: formatOk_object)
    with assms Some True show ?thesis
      by (auto simp: handleImportData_object split: if_splits)
  qed
qed

text \<open>An array of one element that is not a transaction is imported as it is.\<close>

lemma import_single_raw:
  "handleImportData
     (Some (JObject [(''initialBalance'', JNumber (Finite 1)), (''targetTotal'', JNumber (Finite 2)),
        (''transactions'', JArray [JObject []])]))
     True s
   = ImportedRaw (s\<lparr>initialBalance := Some (Finite 1), targetTotal := Finite 2,
        isSettingsOpen := False\<rparr>) [JObject []]"
  by (simp add: handleImportData_object formatOk_def typeofNumber_def isArray_def
      getProp_def numberOf_def elementsOf_def sortImported_def typedOrRaw_def
      asTransaction_def getString_def)

lemma export_import_sorts:
  assumes "initialBalance s = Some b" and "isFinite b" and "isFinite (targetTotal s)"
    and "list_all (\<lambda>t. isFinite (amount t) \<and> isoDate (date t)) (transactions s)"
  shows "handleImportData (Some (handleExportData s)) True s'
    = Imported
        (s'\<lparr>initialBalance := Some b, targetTotal := targetTotal s,
            transactions := sort_array byDateDesc (transactions s), isSettingsOpen := False\<rparr>)"
proof -
  obtain kvs where kvs: "handleExportData s = JObject kvs"
    by (simp add: handleExportData_def)
  have ok: "formatOk (handleExportData s)"
    using assms(1-3)
    by (simp add: formatOk_def getProp_export typeofNumber_def isArray_def jsonNumber_finite)
  have srt: "sortImported (elementsOf (getProp (handleExportData s) ''transactions''))
      = Sorted (sort_array byDateDesc (transactions s))"
    using assms(4) by (simp add: getProp_export elementsOf_def sortImported_export)
  have nums: "numberOf (getProp (handleExportData s) ''initialBalance'') = b"
    "numberOf (getProp (handleExportData s) ''targetTotal'') = targetTotal s"
    using assms(1-3) by (simp_all add: getProp_export numberOf_def jsonNumber_finite)
  show ?thesis
    using ok srt nums unfolding kvs by (simp add: handleImportData_object)
qed

text \<open>
  C5, as stated for every numeric initial balance and target total, fails: \<^verbatim>\<open>NaN\<close> is
  a number that the export writes as \<^verbatim>\<open>null\<close>. Emptying the target field of the
  settings dialog stores \<^verbatim>\<open>NaN\<close>; the export of that state does not pass the format
  check of the import, which reports an error and leaves the importing state, here the
  state after the first-run setup, with its own target total.
\<close>

theorem export_import_nan_counterexample:
  "targetTotal (onBlurTargetTotal None (initial_state\<lparr>initialBalance := Some 0\<rparr>)) = NaN
   \<and> handleImportData
       (Some (handleExportData
          (onBlurTargetTotal None (initial_state\<lparr>initialBalance := Some 0\<rparr>))))
       True (initial_state\<lparr>initialBalance := Some 0\<rparr>)
     = ImportFailed (initial_state\<lparr>initialBalance := Some 0\<rparr>)
   \<and> targetTotal (initial_state\<lparr>initialBalance := Some 0\<rparr>) = Finite 30000"
proof -
  let ?s = "onBlurTargetTotal None (initial_state\<lparr>initialBalance := Some 0\<rparr>)"
  have tt: "targetTotal ?s = NaN"
    by (simp add: onBlurTargetTotal_def parseFloat_def)
  have "\<not> formatOk (handleExportData ?s)"
    by (simp add: formatOk_def getProp_export typeofNumber_def tt jsonNumber_NaN)
  then have "handleImportData (Some (handleExportData ?s)) True
      (initial_state\<lparr>initialBalance := Some 0\<rparr>)
      = ImportFailed (initial_state\<lparr>initialBalance := Some 0\<rparr>)"
    by (rule not_formatOk_fails)
  with tt show ?thesis by (simp add: initial_state_def)
qed

text \<open>
  C5, amended. For every state whose initial balance and target total are finite
  numbers, whose transactions have finite amounts and ISO dates, and whose transaction
  list is sorted by date descending, importing the exported data (and confirming) into
  any state gives a state whose transaction list, initial balance and target total are
  those of the exported state.
\<close>

theorem export_import_roundtrip:
  assumes "initialBalance s = Some b" and "isFinite b" and "isFinite (targetTotal s)"
    and "list_all (\<lambda>t. isFinite (amount t) \<and> isoDate (date t)) (transactions s)"
    and "date_descending (transactions s)"
  shows "handleImportData (Some (handleExportData s)) True s'
    = Imported
        (s'\<lparr>initialBalance := initialBalance s, targetTotal := targetTotal s,
            transactions := transactions s, isSettingsOpen := False\<rparr>)"
  using export_import_sorts [OF assms(1-4), of s'] assms(1,5)
  by (simp add: sort_array_sorted)

text \<open>C5, amended, on a sorted repository of two records.\<close>

theorem export_import_roundtrip_witness:
  "handleImportData
     (Some (handleExportData (initial_state\<lparr>initialBalance := Some (Finite 100),
        transactions :=
        [\<lparr>date = ''2024-02-07'', category = OTHER_ADJUSTMENT, description = ''b'',
          amount = Finite 20, type_tx = expense, id_tx = ''2'', reimbursed = False\<rparr>,
         \<lparr>date = ''2024-01-05'', category = OTHER_ADJUSTMENT, description = ''a'',
          amount = Finite 10, type_tx = income, id_tx = ''1'', reimbursed = False\<rparr>]\<rparr>)))
     True (initial_state\<lparr>initialBalance := Some 0\<rparr>)
   = Imported (initial_state\<lparr>initialBalance := Some (Finite 100), transactions :=
        [\<lparr>date = ''2024-02-07'', category = OTHER_ADJUSTMENT, description = ''b'',
          amount = Finite 20, type_tx = expense, id_tx = ''2'', reimbursed = False\<rparr>,
         \<lparr>date = ''2024-01-05'', category = OTHER_ADJUSTMENT, description = ''a'',
          amount = Finite 10, type_tx = income, id_tx = ''1'', reimbursed = False\<rparr>]\<rparr>)"
proof -
  let ?s = "initial_state\<lparr>initialBalance := Some (Finite 100), transactions :=
        [\<lparr>date = ''2024-02-07'', category = OTHER_ADJUSTMENT, description = ''b'',
          amount = Finite 20, type_tx = expense, id_tx = ''2'', reimbursed = False\<rparr>,
         \<lparr>date = ''2024-01-05'', category = OTHER_ADJUSTMENT, description = ''a'',
          amount = Finite 10, type_tx = income, id_tx = ''1'', reimbursed = False\<rparr>]\<rparr>"
  have h1: "initialBalance ?s = Some (Finite 100)" by simp
  have h2: "isFinite (Finite 100)" by (simp add: isFinite_def)
  have h3: "isFinite (targetTotal ?s)" by (simp add: isFinite_def initial_state_def)
  have h4: "list_all (\<lambda>t. isFinite (amount t) \<and> isoDate (date t)) (transactions ?s)"
    by (simp add: isFinite_def isDigit_def)
  have h5: "date_descending (transactions ?s)" by (simp add: date_descending_def)
  from export_import_roundtrip [OF h1 h2 h3 h4 h5, of "initial_state\<lparr>initialBalance := Some 0\<rparr>"]
  show ?thesis by (simp add: initial_state_def)
qed

text \<open>
  C6. A payload that passes the format check should, once confirmed, replace the three
  fields, and a failed import should leave the state as it was. The payload below
  passes the check and is confirmed; its two array elements have no \<^verbatim>\<open>date\<close>, so the
  comparator raises after the two setters have run: the import reports the failure with
  the initial balance and the target total replaced and the transaction list unchanged.
\<close>

theorem import_failure_keeps_partial_update:
  "formatOk (JObject [(''initialBalance'', JNumber (Finite 1)),
       (''targetTotal'', JNumber (Finite 2)),
       (''transactions'', JArray [JObject [], JObject []])])
   \<and> handleImportData
       (Some (JObject [(''initialBalance'', JNumber (Finite 1)),
          (''targetTotal'', JNumber (Finite 2)),
          (''transactions'', JArray [JObject [], JObject []])]))
       True
       (initial_state\<lparr>initialBalance := Some 0, transactions :=
          [\<lparr>date = ''2024-01-05'', category = OTHER_ADJUSTMENT, description = ''a'',
            amount = Finite 10, type_tx = income, id_tx = ''1'', reimbursed = False\<rparr>]\<rparr>)
     = ImportFailed
         (initial_state\<lparr>initialBalance := Some (Finite 1), targetTotal := Finite 2,
            transactions :=
          [\<lparr>date = ''2024-01-05'', category = OTHER_ADJUSTMENT, description = ''a'',
            amount = Finite 10, type_tx = income, id_tx = ''1'', reimbursed = False\<rparr>]\<rparr>)"
  by (simp add: handleImportData_object formatOk_def typeofNumber_def isArray_def
      getProp_def numberOf_def elementsOf_def sortImported_def
      getString_def hasStringDate_def)

section \<open>Transaction form: proofs\<close>

lemma availableCategories_income:
  "availableCategories income = [STUDENT_PAYMENT, OTHER_ADJUSTMENT]"
  by (simp add: availableCategories_def Category_values_def)

lemma availableCategories_expense:
  "availableCategories expense = [MORNING_KINGDOM, INVOICE_REIMBURSEMENT, OTHER_ADJUSTMENT]"
  by (simp add: availableCategories_def Category_values_def)

lemma categoryEffect_available:
  "f_category (categoryEffect f) \<in> set (availableCategories (f_type (categoryEffect f)))"
  by (cases "f_type f")
    (auto simp: categoryEffect_def availableCategories_income availableCategories_expense)

lemma form_reachable_available:
  "form_reachable f \<Longrightarrow> f_category f \<in> set (availableCategories (f_type f))"
  by (induction rule: form_reachable.induct) (simp_all add: categoryEffect_available)

lemma available_allowed:
  assumes "c \<in> set (availableCategories ty)"
  shows "(ty = income \<longrightarrow> c \<noteq> INVOICE_REIMBURSEMENT \<and> c \<noteq> MORNING_KINGDOM)
    \<and> (ty = expense \<longrightarrow> c \<noteq> STUDENT_PAYMENT)"
  using assms
  by (cases ty) (auto simp: availableCategories_income availableCategories_expense)

lemma committed_fields:
  assumes "committed now (handleSubmit f) = Some t"
  shows "category t = f_category f \<and> type_tx t = f_type f"
  using assms
  by (auto simp: committed_def handleSubmit_def newTransaction_def
      split: option.splits if_splits)

text \<open>
  C9. Every transaction that a submission of the form commits, as an addition or as an
  update, has a category other than invoice-reimbursement and fund-source
  (\<open>MORNING_KINGDOM\<close>) when its type is income, and a category other than
  student-payment when its type is expense.
\<close>

theorem form_commits_no_forbidden_combination:
  assumes "form_reachable f" and "committed now (handleSubmit f) = Some t"
  shows "(type_tx t = income \<longrightarrow>
            category t \<noteq> INVOICE_REIMBURSEMENT \<and> category t \<noteq> MORNING_KINGDOM)
    \<and> (type_tx t = expense \<longrightarrow> category t \<noteq> STUDENT_PAYMENT)"
proof -
  from assms(2) have "category t = f_category f" and "type_tx t = f_type f"
    by (simp_all add: committed_fields)
  moreover from assms(1) have "f_category f \<in> set (availableCategories (f_type f))"
    by (rule form_reachable_available)
  ultimately show ?thesis using available_allowed by metis
qed

text \<open>
  C9 on the form opened for an addition, switched to income (the category effect resets
  the category to student-payment), with the amount 250.
\<close>

theorem form_commits_no_forbidden_combination_witness:
  "form_reachable ((categoryEffect ((categoryEffect (editingEffect
       (initial_form ''2024-03-01'' None)))\<lparr>f_type := income\<rparr>))\<lparr>f_amount := Some (Finite 250)\<rparr>)
   \<and> committed 1000 (handleSubmit ((categoryEffect ((categoryEffect (editingEffect
       (initial_form ''2024-03-01'' None)))\<lparr>f_type := income\<rparr>))\<lparr>f_amount := Some (Finite 250)\<rparr>))
     = Some \<lparr>date = ''2024-03-01'', category = STUDENT_PAYMENT, description = [],
         amount = Finite 250, type_tx = income, id_tx = ''1000'', reimbursed = False\<rparr>
   \<and> category \<lparr>date = ''2024-03-01'', category = STUDENT_PAYMENT, description = [],
         amount = Finite 250, type_tx = income, id_tx = ''1000'', reimbursed = False\<rparr>
       \<noteq> INVOICE_REIMBURSEMENT"
proof -
  let ?f0 = "categoryEffect (editingEffect (initial_form ''2024-03-01'' None))"
  let ?f = "(categoryEffect (?f0\<lparr>f_type := income\<rparr>))\<lparr>f_amount := Some (Finite 250)\<rparr>"
  let ?t = "\<lparr>date = ''2024-03-01'', category = STUDENT_PAYMENT, description = [],
         amount = Finite 250, type_tx = income, id_tx = ''1000'', reimbursed = False\<rparr>"
  have r: "form_reachable ?f"
    by (intro form_reachable.setAmount form_reachable.setType form_reachable.mounted)
  have c: "committed 1000 (handleSubmit ?f) = Some ?t"
    by (simp add: committed_def handleSubmit_def newTransaction_def toString_1000
        categoryEffect_def editingEffect_def initial_form_def zero_number_def
        availableCategories_income availableCategories_expense)
  from form_commits_no_forbidden_combination [OF r c] have "category ?t \<noteq> INVOICE_REIMBURSEMENT"
    by simp
  with r c show ?thesis by (intro conjI)
qed
end
